theory Spec2Isabelle
  imports Complex_Main
begin

section \<open>Voice memo exporter: the export loop of main.py\<close>

text \<open>
  The script reads rows \<open>(ZDATE, ZDURATION, ZCUSTOMLABEL, ZPATH)\<close> from a database and, row
  by row, resolves a source and a destination path, decides (batch flag or one keystroke)
  whether to export, copies the file, sets its modification time, and logs failures.

  Python strings are sequences of Unicode code points, so a string is a list of naturals;
  \<open>py_str\<close> turns an ASCII literal into one. Python floats are finite rationals whose
  addition (with its rounding) is a parameter of the model. The table rendering
  (\<open>helper_str\<close>, \<open>body_row\<close>, the shortened paths, the duration column) only feeds
  \<open>print\<close>; of every printed row the model keeps the status column.
\<close>

type_synonym ustr = "nat list"

definition py_str :: "string \<Rightarrow> ustr" where
  "py_str s = map of_char s"

subsection \<open>Line 93: cleaning the label\<close>

text \<open>
  \<open>s.encode('ascii', 'ignore').decode('ascii').replace('/', '_')\<close>: every code point from
  128 on is dropped, then every \<open>/\<close> (47) becomes \<open>_\<close> (95).
\<close>

definition sanitize :: "ustr \<Rightarrow> ustr" where
  "sanitize s = map (\<lambda>c. if c = 47 then 95 else c) (filter (\<lambda>c. c < 128) s)"

text \<open>\<open>... if row[2] else "Untitled"\<close>: \<open>None\<close> and the empty string are falsy.\<close>

definition clean_label :: "ustr option \<Rightarrow> ustr" where
  "clean_label l =
     (case l of
        None \<Rightarrow> py_str ''Untitled''
      | Some s \<Rightarrow> if s = [] then py_str ''Untitled'' else sanitize s)"

subsection \<open>The path functions of the standard library (posixpath)\<close>

text \<open>
  \<open>os.path.join\<close>, \<open>os.path.dirname\<close> and \<open>os.path.splitext\<close> are not code of the
  repository; they are written out here as CPython's \<open>posixpath\<close> computes them, for two
  arguments of \<open>join\<close>. The separator is \<open>/\<close> (47), the extension separator \<open>.\<close> (46).
\<close>

definition path_join :: "ustr \<Rightarrow> ustr \<Rightarrow> ustr" where
  "path_join a b =
     (if b \<noteq> [] \<and> hd b = 47 then b
      else if a = [] \<or> last a = 47 then a @ b
      else a @ [47] @ b)"

definition path_dirname :: "ustr \<Rightarrow> ustr" where
  "path_dirname p =
     (let head = rev (dropWhile (\<lambda>c. c \<noteq> 47) (rev p))
      in if head \<noteq> [] \<and> head \<noteq> replicate (length head) 47
         then rev (dropWhile (\<lambda>c. c = 47) (rev head))
         else head)"

definition path_splitext :: "ustr \<Rightarrow> ustr \<times> ustr" where
  "path_splitext p =
     (let name = rev (takeWhile (\<lambda>c. c \<noteq> 47) (rev p));
          tail = rev (takeWhile (\<lambda>c. c \<noteq> 46) (rev name));
          stem = take (length name - Suc (length tail)) name
      in if 46 \<in> set name \<and> (\<exists>c \<in> set stem. c \<noteq> 46)
         then (take (length p - Suc (length tail)) p, 46 # tail)
         else (p, []))"

subsection \<open>The file system and the calls that can fail\<close>

text \<open>
  A file system maps a path to a file (content and modification time) and carries the
  clock a newly written file is stamped with. Paths are compared as strings.

  Every call into the operating system can raise. Why it would (permissions, a full disk,
  a directory in the way, source and destination being the same file) is outside the
  program, so the environment decides: \<open>fault env fs c\<close> is \<open>Some (msg, fs')\<close> when call
  \<open>c\<close>, made on file system \<open>fs\<close>, raises an exception whose \<open>str\<close> is \<open>msg\<close> and leaves
  \<open>fs'\<close> behind. A call that does not raise has the effect written below.
\<close>

record fnode =
  content :: ustr
  mtime :: rat

record fs =
  files :: "ustr \<rightharpoonup> fnode"
  clock :: rat

datatype call =
    Makedirs ustr
  | OpenWrite ustr ustr
  | OpenAppend ustr ustr
  | Copyfile ustr ustr
  | Utime ustr rat

text \<open>
  The environment: the fault oracle, and the library functions on floats and dates that
  depend on the platform (float addition, the local time zone, the C library's
  \<open>strftime\<close>). \<open>mktime\<close> stands for \<open>time.mktime(date.timetuple())\<close>, which can raise
  \<open>OverflowError\<close>; \<open>str_datetime\<close> for \<open>str\<close> of a \<open>datetime\<close>.

  Three of these functions raise on some arguments, and the script calls them outside its
  \<open>try\<close>: \<open>datetime.fromtimestamp\<close> on a float out of its range, \<open>date.strftime\<close> on a
  date or format the platform refuses, \<open>timedelta(seconds=x)\<close> on a float too large.
  \<open>date_error\<close>, \<open>strftime_error\<close> and \<open>duration_error\<close> give the exception (its \<open>str\<close>),
  or \<open>None\<close> when the call returns; \<open>fromtimestamp\<close> and \<open>strftime\<close> are what it returns
  then.
\<close>

record 'd env =
  fault :: "fs \<Rightarrow> call \<Rightarrow> (ustr \<times> fs) option"
  fadd :: "rat \<Rightarrow> rat \<Rightarrow> rat"
  date_error :: "rat \<Rightarrow> ustr option"
  fromtimestamp :: "rat \<Rightarrow> 'd"
  strftime_error :: "'d \<Rightarrow> ustr \<Rightarrow> ustr option"
  strftime :: "'d \<Rightarrow> ustr \<Rightarrow> ustr"
  duration_error :: "rat \<Rightarrow> ustr option"
  mktime :: "'d \<Rightarrow> ustr + rat"
  str_datetime :: "'d \<Rightarrow> ustr"

text \<open>The result of a call: \<open>Inl (msg, fs')\<close> is the exception, \<open>Inr fs'\<close> the return.\<close>

type_synonym io = "(ustr \<times> fs) + fs"

definition enoent :: "ustr \<Rightarrow> ustr" where
  "enoent p = py_str ''[Errno 2] No such file or directory: '' @ p"

definition path_exists :: "fs \<Rightarrow> ustr \<Rightarrow> bool" where
  "path_exists w p = (files w p \<noteq> None)"

definition makedirs :: "'d env \<Rightarrow> fs \<Rightarrow> ustr \<Rightarrow> io" where
  "makedirs e w p =
     (case fault e w (Makedirs p) of
        Some x \<Rightarrow> Inl x
      | None \<Rightarrow> Inr w)"

text \<open>\<open>with open(p, "w") as f: f.write(text)\<close>: the file is created or truncated.\<close>

definition open_write :: "'d env \<Rightarrow> fs \<Rightarrow> ustr \<Rightarrow> ustr \<Rightarrow> io" where
  "open_write e w p data =
     (case fault e w (OpenWrite p data) of
        Some x \<Rightarrow> Inl x
      | None \<Rightarrow> Inr (w\<lparr>files := (files w)(p \<mapsto> \<lparr>content = data, mtime = clock w\<rparr>)\<rparr>))"

text \<open>
  \<open>with open(p, "a") as f: f.write(text)\<close>: the text goes after what the file holds (a
  file that is not there is created), and the file is closed when the block is left.
\<close>

definition append_file :: "fs \<Rightarrow> ustr \<Rightarrow> ustr \<Rightarrow> fs" where
  "append_file w p data =
     w\<lparr>files := (files w)(p \<mapsto>
        \<lparr>content = (case files w p of None \<Rightarrow> [] | Some f \<Rightarrow> content f) @ data,
         mtime = clock w\<rparr>)\<rparr>"

definition open_append :: "'d env \<Rightarrow> fs \<Rightarrow> ustr \<Rightarrow> ustr \<Rightarrow> io" where
  "open_append e w p data =
     (case fault e w (OpenAppend p data) of
        Some x \<Rightarrow> Inl x
      | None \<Rightarrow> Inr (append_file w p data))"

text \<open>\<open>shutil.copyfile(src, dst)\<close>: the destination gets the source's content.\<close>

definition copyfile :: "'d env \<Rightarrow> fs \<Rightarrow> ustr \<Rightarrow> ustr \<Rightarrow> io" where
  "copyfile e w src dst =
     (case fault e w (Copyfile src dst) of
        Some x \<Rightarrow> Inl x
      | None \<Rightarrow>
          (case files w src of
             None \<Rightarrow> Inl (enoent src, w)
           | Some f \<Rightarrow>
               Inr (w\<lparr>files := (files w)(dst \<mapsto> \<lparr>content = content f, mtime = clock w\<rparr>)\<rparr>)))"

text \<open>\<open>os.utime(p, (t, t))\<close>.\<close>

definition utime :: "'d env \<Rightarrow> fs \<Rightarrow> ustr \<Rightarrow> rat \<Rightarrow> io" where
  "utime e w p t =
     (case fault e w (Utime p t) of
        Some x \<Rightarrow> Inl x
      | None \<Rightarrow>
          (case files w p of
             None \<Rightarrow> Inl (enoent p, w)
           | Some f \<Rightarrow> Inr (w\<lparr>files := (files w)(p \<mapsto> f\<lparr>mtime := t\<rparr>)\<rparr>)))"

subsection \<open>Arguments, rows and the state of a run\<close>

record args =
  db_path :: ustr
  export_path :: ustr
  all_flag :: bool
  date_in_name :: bool
  date_in_name_format :: ustr
  no_finder :: bool

text \<open>
  A row of the query. Every column can be NULL, which \<open>sqlite3\<close> hands over as \<open>None\<close>.
\<close>

record memo_row =
  zdate :: "rat option"
  zduration :: "rat option"
  zcustomlabel :: "ustr option"
  zpath :: "ustr option"

text \<open>
  The state the loop changes: the file system, the keys still to be read from standard
  input, the two counters, and the status column of every row printed for good.
\<close>

record run_state =
  disk :: fs
  stdin :: "nat list"
  failed_count :: nat
  success_count :: nat
  printed :: "ustr list"

text \<open>Line 46. The literal denotes this double exactly.\<close>

definition dt_offset :: rat where
  "dt_offset = 2051658902825037 / 2097152"

subsection \<open>Lines 88 to 108: what the loop computes from a row\<close>

text \<open>
  \<open>row[0]\<close> as the float line 88 adds the offset to. On \<open>None\<close> the addition raises
  (\<open>row_error\<close> below) and the loop is left before the date is used, so the value given
  here for \<open>None\<close> is never read.
\<close>

definition zdate_float :: "memo_row \<Rightarrow> rat" where
  "zdate_float r = (case zdate r of None \<Rightarrow> 0 | Some z \<Rightarrow> z)"

definition row_date :: "'d env \<Rightarrow> memo_row \<Rightarrow> 'd" where
  "row_date e r = fromtimestamp e (fadd e (zdate_float r) dt_offset)"

definition date_str :: "'d env \<Rightarrow> memo_row \<Rightarrow> ustr" where
  "date_str e r = strftime e (row_date e r) (py_str ''%d.%m.%Y %H:%M:%S'')"

definition label :: "memo_row \<Rightarrow> ustr" where
  "label r = clean_label (zcustomlabel r)"

definition path_old_raw :: "memo_row \<Rightarrow> ustr" where
  "path_old_raw r = (case zpath r of None \<Rightarrow> [] | Some p \<Rightarrow> p)"

definition path_old :: "args \<Rightarrow> memo_row \<Rightarrow> ustr" where
  "path_old a r =
     (let raw = path_old_raw r
      in if raw \<noteq> [] then
           (if \<not> (hd raw = 47) then path_join (path_dirname (db_path a)) raw else raw)
         else [])"

text \<open>Lines 103 and 104: the file name, before it is joined to the export directory.\<close>

definition file_name :: "'d env \<Rightarrow> args \<Rightarrow> memo_row \<Rightarrow> ustr" where
  "file_name e a r =
     (let n = label r @ snd (path_splitext (path_old a r))
      in if date_in_name a then strftime e (row_date e r) (date_in_name_format a) @ n else n)"

definition path_new :: "'d env \<Rightarrow> args \<Rightarrow> memo_row \<Rightarrow> ustr" where
  "path_new e a r =
     (if path_old_raw r \<noteq> [] then path_join (export_path a) (file_name e a r) else [])"

definition log_path :: "args \<Rightarrow> ustr" where
  "log_path a = path_join (export_path a) (py_str ''failed_exports.txt'')"

text \<open>
  Lines 88 to 108 are outside the \<open>try\<close>: what they raise ends the run. \<open>row_error\<close> is
  the first exception they raise for a row, in the order of the lines: line 88 on a
  \<open>None\<close> date (\<open>None + float\<close>) or a date out of range, line 89 in \<open>strftime\<close>, line 90
  on a \<open>None\<close> or too large duration, line 104 in \<open>strftime\<close> with the format of the
  command line. \<open>None\<close> when they all return.
\<close>

definition row_error :: "'d env \<Rightarrow> args \<Rightarrow> memo_row \<Rightarrow> ustr option" where
  "row_error e a r =
     (case zdate r of
        None \<Rightarrow> Some (py_str ''unsupported operand type(s) for +: NoneType and float'')
      | Some z \<Rightarrow>
          (case date_error e (fadd e z dt_offset) of
             Some msg \<Rightarrow> Some msg
           | None \<Rightarrow>
               (case strftime_error e (row_date e r) (py_str ''%d.%m.%Y %H:%M:%S'') of
                  Some msg \<Rightarrow> Some msg
                | None \<Rightarrow>
                    (case zduration r of
                       None \<Rightarrow>
                         Some (py_str ''unsupported type for timedelta seconds component: NoneType'')
                     | Some d \<Rightarrow>
                         (case duration_error e d of
                            Some msg \<Rightarrow> Some msg
                          | None \<Rightarrow>
                              if path_old_raw r \<noteq> [] \<and> date_in_name a
                              then strftime_error e (row_date e r) (date_in_name_format a)
                              else None)))))"

subsection \<open>Lines 113 to 145: decide, export, log\<close>

text \<open>
  The result of a step: \<open>Inr\<close> the state the loop goes on with, \<open>Inl msg\<close> an exception that
  nothing catches, which ends the run.

  \<open>read_key\<close> is lines 114 to 124. With \<open>--all\<close> the key is 10 and nothing is read. Else one
  character is read; at the end of input \<open>sys.stdin.read(1)\<close> is the empty string and
  \<open>ord\<close> raises.
\<close>

definition read_key :: "args \<Rightarrow> run_state \<Rightarrow> ustr + (nat \<times> run_state)" where
  "read_key a s =
     (if all_flag a then Inr (10, s)
      else (case stdin s of
              [] \<Rightarrow> Inl (py_str ''ord() expected a character, but string of length 0 found'')
            | k # ks \<Rightarrow> Inr (k, s\<lparr>stdin := ks\<rparr>)))"

definition fail_line :: "ustr \<Rightarrow> ustr \<Rightarrow> ustr \<Rightarrow> ustr" where
  "fail_line d l reason =
     py_str ''FAILED: '' @ d @ py_str '' | Memo: '' @ l @ py_str '' | Reason: '' @ reason @ [10]"

text \<open>
  Lines 137 to 142, the \<open>except Exception as e\<close> block, entered with the file system \<open>w\<close>
  the failed call left and \<open>reason = str(e)\<close>. The block itself is not guarded: an
  exception of its \<open>open\<close> or \<open>write\<close> leaves the loop.
\<close>

definition record_failure :: "run_state \<Rightarrow> fs \<Rightarrow> run_state" where
  "record_failure s w =
     s\<lparr>disk := w,
       printed := printed s @ [py_str ''FAILED (Logged)''],
       failed_count := failed_count s + 1\<rparr>"

definition log_failure ::
  "'d env \<Rightarrow> args \<Rightarrow> memo_row \<Rightarrow> run_state \<Rightarrow> fs \<Rightarrow> ustr \<Rightarrow> ustr + run_state" where
  "log_failure e a r s w reason =
     (case open_append e w (log_path a) (fail_line (date_str e r) (label r) reason) of
        Inl (msg, w') \<Rightarrow> Inl msg
      | Inr w' \<Rightarrow> Inr (record_failure s w'))"

definition missing_source :: ustr where
  "missing_source = py_str ''Audio file not found on disk (likely in iCloud)''"

text \<open>Lines 134 and 135, after a copy that went through.\<close>

definition record_success :: "run_state \<Rightarrow> fs \<Rightarrow> run_state" where
  "record_success s w =
     s\<lparr>disk := w,
       printed := printed s @ [py_str ''Success!''],
       success_count := success_count s + 1\<rparr>"

text \<open>
  Lines 128 to 133, the calls inside the \<open>try\<close>, on the file system \<open>w\<close>: \<open>Inl (str(e), w')\<close>
  when one of them raises and leaves \<open>w'\<close>, \<open>Inr w'\<close> when the file is copied and its time
  set. (\<open>export_row\<close> below is the whole \<open>try\<close> statement; that it does with these results
  what the handler and lines 134 and 135 say is lemma \<open>export_row_try\<close>.)
\<close>

definition try_export :: "'d env \<Rightarrow> args \<Rightarrow> memo_row \<Rightarrow> fs \<Rightarrow> (ustr \<times> fs) + fs" where
  "try_export e a r w =
     (if path_old a r = [] \<or> \<not> path_exists w (path_old a r)
      then Inl (missing_source, w)
      else
        (case copyfile e w (path_old a r) (path_new e a r) of
           Inl (msg, w1) \<Rightarrow> Inl (msg, w1)
         | Inr w1 \<Rightarrow>
             (case mktime e (row_date e r) of
                Inl msg \<Rightarrow> Inl (msg, w1)
              | Inr mod_time \<Rightarrow>
                  (case utime e w1 (path_new e a r) mod_time of
                     Inl (msg, w2) \<Rightarrow> Inl (msg, w2)
                   | Inr w2 \<Rightarrow> Inr w2))))"

text \<open>Lines 127 to 142: the \<open>try\<close> block and its handler.\<close>

definition export_row :: "'d env \<Rightarrow> args \<Rightarrow> memo_row \<Rightarrow> run_state \<Rightarrow> ustr + run_state" where
  "export_row e a r s =
     (if path_old a r = [] \<or> \<not> path_exists (disk s) (path_old a r)
      then log_failure e a r s (disk s) missing_source
      else
        (case copyfile e (disk s) (path_old a r) (path_new e a r) of
           Inl (msg, w1) \<Rightarrow> log_failure e a r s w1 msg
         | Inr w1 \<Rightarrow>
             (case mktime e (row_date e r) of
                Inl msg \<Rightarrow> log_failure e a r s w1 msg
              | Inr mod_time \<Rightarrow>
                  (case utime e w1 (path_new e a r) mod_time of
                     Inl (msg, w2) \<Rightarrow> log_failure e a r s w2 msg
                   | Inr w2 \<Rightarrow> Inr (record_success s w2)))))"

text \<open>
  Lines 113 to 145: what the loop does with a row once lines 88 to 111 have returned.
\<close>

definition process_row :: "'d env \<Rightarrow> args \<Rightarrow> run_state \<Rightarrow> memo_row \<Rightarrow> ustr + run_state" where
  "process_row e a s r =
     (case read_key a s of
        Inl msg \<Rightarrow> Inl msg
      | Inr (key, s1) \<Rightarrow>
          if key = 10 then export_row e a r s1
          else if key = 27 then Inr (s1\<lparr>printed := printed s1 @ [py_str ''Skipped'']\<rparr>)
          else Inr s1)"

text \<open>
  The body of the loop, lines 88 to 145: an exception of lines 88 to 108 is caught by
  nothing, and no key is read and nothing exported for that row.
\<close>

definition loop_step :: "'d env \<Rightarrow> args \<Rightarrow> run_state \<Rightarrow> memo_row \<Rightarrow> ustr + run_state" where
  "loop_step e a s r =
     (case row_error e a r of
        Some msg \<Rightarrow> Inl msg
      | None \<Rightarrow> process_row e a s r)"

text \<open>The loop, line 87: an exception that leaves the body leaves the loop.\<close>

fun process_rows :: "'d env \<Rightarrow> args \<Rightarrow> run_state \<Rightarrow> memo_row list \<Rightarrow> ustr + run_state" where
  "process_rows e a s [] = Inr s"
| "process_rows e a s (r # rs) =
     (case loop_step e a s r of
        Inl msg \<Rightarrow> Inl msg
      | Inr s' \<Rightarrow> process_rows e a s' rs)"


subsection \<open>Lines 59 to 85: before the loop\<close>

text \<open>
  The database is an input: whether the file is readable, and what the query returns
  (\<open>None\<close> when no connection could be made). \<open>exit()\<close> ends the run with no state.
  \<open>datetime.now()\<close> is \<open>fromtimestamp\<close> of the clock.
\<close>

datatype outcome = Exited | Crashed (message: ustr) | Finished (final: run_state)

definition log_header :: "'d env \<Rightarrow> fs \<Rightarrow> ustr" where
  "log_header e w =
     py_str ''Voice Memos Export Log - '' @ str_datetime e (fromtimestamp e (clock w)) @ [10]
       @ replicate 50 61 @ [10]"

text \<open>Lines 75 to 78: the log file is opened with mode \<open>"w"\<close> and gets its two lines.\<close>

definition init_log :: "'d env \<Rightarrow> args \<Rightarrow> fs \<Rightarrow> io" where
  "init_log e a w = open_write e w (log_path a) (log_header e w)"

definition main :: "'d env \<Rightarrow> args \<Rightarrow> bool \<Rightarrow> memo_row list option \<Rightarrow> fs \<Rightarrow> nat list \<Rightarrow> outcome" where
  "main e a readable db w keys =
     (if \<not> readable then Exited
      else (case db of
              None \<Rightarrow> Exited
            | Some rows \<Rightarrow>
                if rows = [] then Exited
                else
                  (case (if \<not> path_exists w (export_path a) then makedirs e w (export_path a)
                         else Inr w) of
                     Inl (msg, w1) \<Rightarrow> Crashed msg
                   | Inr w1 \<Rightarrow>
                       (case init_log e a w1 of
                          Inl (msg, w2) \<Rightarrow> Crashed msg
                        | Inr w2 \<Rightarrow>
                            (case process_rows e a
                                    \<lparr>disk = w2, stdin = keys, failed_count = 0,
                                     success_count = 0, printed = []\<rparr> rows of
                               Inl msg \<Rightarrow> Crashed msg
                             | Inr s \<Rightarrow> Finished s)))))"

subsection \<open>Being inside the export directory\<close>

text \<open>
  A path is inside a directory when it is the directory joined with one name that has no
  separator and is not empty, \<open>.\<close> or \<open>..\<close>.
\<close>

definition inside :: "ustr \<Rightarrow> ustr \<Rightarrow> bool" where
  "inside d p =
     (let n = drop (length (path_join d [])) p
      in p = path_join d n \<and> n \<noteq> [] \<and> 47 \<notin> set n \<and> n \<noteq> [46] \<and> n \<noteq> [46, 46])"

subsection \<open>Two environments to run the model in\<close>

text \<open>
  In \<open>plain_env\<close> no call into the operating system raises, float addition is exact, a
  date is its timestamp (\<open>mktime\<close> drops the fraction of a second, as a time tuple does)
  and has to lie in the years 1 to 9999, a duration has to be under a thousand million
  days, and \<open>strftime\<close> copies its format: that is what the C library does with a format
  that has no directive, and directives are left as they are. The other
  environments differ from it in what raises: in \<open>full_disk_env\<close> copying and appending, in
  \<open>copy_fault_env\<close> copying, in \<open>utime_fault_env\<close> setting the time, in \<open>mktime_fault_env\<close>
  the conversion of the date.
\<close>

definition plain_env :: "rat env" where
  "plain_env =
     \<lparr>fault = (\<lambda>w c. None), fadd = (\<lambda>x y. x + y),
      date_error = (\<lambda>x. if - 62135596800 \<le> x \<and> x < 253402300800 then None
                         else Some (py_str ''year is out of range'')),
      fromtimestamp = (\<lambda>t. t),
      strftime_error = (\<lambda>d f. None),
      strftime = (\<lambda>d f. f),
      duration_error = (\<lambda>x. if - 86400000000000 < x \<and> x < 86400000000000 then None
                             else Some (py_str ''days must have magnitude <= 999999999'')),
      mktime = (\<lambda>d. Inr (of_int \<lfloor>d\<rfloor>)), str_datetime = (\<lambda>d. [])\<rparr>"

definition enospc :: ustr where
  "enospc = py_str ''[Errno 28] No space left on device''"

definition eacces :: ustr where
  "eacces = py_str ''[Errno 13] Permission denied''"

definition full_disk_env :: "rat env" where
  "full_disk_env =
     plain_env\<lparr>fault := (\<lambda>w c. case c of
        OpenAppend p d \<Rightarrow> Some (enospc, w)
      | Copyfile src dst \<Rightarrow> Some (enospc, w)
      | _ \<Rightarrow> None)\<rparr>"

definition copy_fault_env :: "rat env" where
  "copy_fault_env =
     plain_env\<lparr>fault := (\<lambda>w c. case c of Copyfile src dst \<Rightarrow> Some (eacces, w) | _ \<Rightarrow> None)\<rparr>"

definition utime_fault_env :: "rat env" where
  "utime_fault_env =
     plain_env\<lparr>fault := (\<lambda>w c. case c of Utime p t \<Rightarrow> Some (eacces, w) | _ \<Rightarrow> None)\<rparr>"

definition mktime_fault_env :: "rat env" where
  "mktime_fault_env =
     plain_env\<lparr>mktime := (\<lambda>d. Inl (py_str ''mktime argument out of range''))\<rparr>"

subsection \<open>A small run: arguments, rows and a disk\<close>

definition ex_args :: args where
  "ex_args =
     \<lparr>db_path = py_str ''/db/CloudRecordings.db'', export_path = py_str ''/out'',
      all_flag = True, date_in_name = False,
      date_in_name_format = py_str ''%Y-%m-%d-%H-%M-%S_'', no_finder = True\<rparr>"

definition ex_row :: "ustr option \<Rightarrow> ustr option \<Rightarrow> memo_row" where
  "ex_row l p = \<lparr>zdate = Some 0, zduration = Some 3, zcustomlabel = l, zpath = p\<rparr>"

definition ex_disk :: fs where
  "ex_disk =
     \<lparr>files =
        [py_str ''/db/a.m4a'' \<mapsto> \<lparr>content = [1, 2, 3], mtime = 5\<rparr>,
         py_str ''/db/b.m4a'' \<mapsto> \<lparr>content = [4, 5], mtime = 6\<rparr>,
         py_str ''/out/failed_exports.txt'' \<mapsto> \<lparr>content = [61, 10], mtime = 7\<rparr>],
      clock = 1000000000\<rparr>"

definition ex_row_a :: memo_row where
  "ex_row_a = ex_row (Some (py_str ''A'')) (Some (py_str ''a.m4a''))"

definition ex_row_gone :: memo_row where
  "ex_row_gone = ex_row (Some (py_str ''B'')) (Some (py_str ''gone.m4a''))"

definition ex_rows :: "memo_row list" where
  "ex_rows = [ex_row (Some (py_str ''A'')) (Some (py_str ''a.m4a'')), ex_row None None]"

definition ex_same_rows :: "memo_row list" where
  "ex_same_rows =
     [ex_row (Some (py_str ''A'')) (Some (py_str ''a.m4a'')),
      ex_row (Some (py_str ''A'')) (Some (py_str ''b.m4a''))]"

definition ex_distinct_rows :: "memo_row list" where
  "ex_distinct_rows =
     [ex_row (Some (py_str ''A'')) (Some (py_str ''a.m4a'')),
      ex_row (Some (py_str ''C'')) (Some (py_str ''b.m4a''))]"

definition ex_row_far :: memo_row where
  "ex_row_far = ex_row_a\<lparr>zdate := Some 1000000000000000000\<rparr>"

definition ex_row_null :: memo_row where
  "ex_row_null = ex_row_a\<lparr>zduration := None\<rparr>"

definition ex_row_newline :: memo_row where
  "ex_row_newline = ex_row (Some [97, 10, 98]) None"

definition ex_row_dots :: memo_row where
  "ex_row_dots = ex_row (Some (py_str ''..'')) (Some (py_str ''rec''))"

definition ex_args_dated :: args where
  "ex_args_dated = ex_args\<lparr>date_in_name := True, date_in_name_format := py_str ''/tmp/''\<rparr>"

text \<open>The disk after \<open>/db/a.m4a\<close> has been copied to \<open>/out/A.m4a\<close>.\<close>

definition ex_copied :: fs where
  "ex_copied =
     ex_disk\<lparr>files := (files ex_disk)
       (py_str ''/out/A.m4a'' \<mapsto> \<lparr>content = [1, 2, 3], mtime = 1000000000\<rparr>)\<rparr>"

definition ex_state :: run_state where
  "ex_state =
     \<lparr>disk = ex_disk, stdin = [], failed_count = 0, success_count = 0, printed = []\<rparr>"

text \<open>Without \<open>--all\<close>, with Enter and then \<open>q\<close> typed.\<close>

definition ex_asking :: args where
  "ex_asking = ex_args\<lparr>all_flag := False\<rparr>"

definition ex_typed :: run_state where
  "ex_typed = ex_state\<lparr>stdin := [10, 113]\<rparr>"

section \<open>Properties\<close>

lemmas ex_defs =
  ex_args_def ex_args_dated_def ex_row_def ex_row_a_def ex_row_gone_def ex_row_dots_def
  ex_row_far_def ex_row_null_def ex_row_newline_def ex_copied_def ex_asking_def ex_typed_def
  ex_distinct_rows_def ex_rows_def ex_same_rows_def ex_disk_def ex_state_def plain_env_def
  full_disk_env_def copy_fault_env_def utime_fault_env_def mktime_fault_env_def enospc_def
  eacces_def

lemmas row_defs =
  zdate_float_def row_date_def date_str_def label_def path_old_raw_def path_old_def file_name_def path_new_def
  log_path_def clean_label_def sanitize_def path_join_def path_dirname_def path_splitext_def
  py_str_def

lemmas step_defs =
  row_error_def loop_step_def process_row_def read_key_def export_row_def log_failure_def record_failure_def
  record_success_def fail_line_def missing_source_def
  path_exists_def copyfile_def utime_def open_append_def append_file_def open_write_def
  makedirs_def enoent_def

lemma floor_dt_offset: "\<lfloor>dt_offset\<rfloor> = 978307200"
  by (simp add: dt_offset_def floor_eq_iff)

lemma floor_offset: "\<lfloor>2051658902825037 / 2097152 :: rat\<rfloor> = 978307200"
  by (simp add: floor_eq_iff)

subsection \<open>The body of the loop\<close>

text \<open>
  The body either raises what lines 88 to 108 raise, or does what \<open>process_row\<close> does; and
  \<open>export_row\<close> hands what the calls of the \<open>try\<close> block give to the handler or to lines
  134 and 135.
\<close>

lemma loop_step_returns:
  "loop_step e a s r = Inr s' \<Longrightarrow> row_error e a r = None \<and> process_row e a s r = Inr s'"
  by (auto simp: loop_step_def split: option.splits)


lemma loop_step_raises:
  "row_error e a r = Some msg \<Longrightarrow> loop_step e a s r = Inl msg"
  by (simp add: loop_step_def)

lemma export_row_try:
  "export_row e a r s =
     (case try_export e a r (disk s) of
        Inl (reason, w) \<Rightarrow> log_failure e a r s w reason
      | Inr w \<Rightarrow> Inr (record_success s w))"
  by (auto simp: export_row_def try_export_def split: sum.splits)

lemma read_key_disk: "read_key a s = Inr (k, s0) \<Longrightarrow> disk s0 = disk s"
  by (auto simp: read_key_def split: if_splits list.splits)

lemma read_key_counts:
  "read_key a s = Inr (k, s0) \<Longrightarrow>
     failed_count s0 = failed_count s \<and> success_count s0 = success_count s"
  by (auto simp: read_key_def split: if_splits list.splits)


subsection \<open>Label cleaning\<close>

lemma sanitize_no_sep: "47 \<notin> set (sanitize s)"
  by (auto simp: sanitize_def)

lemma sanitize_non_ascii: "list_all (\<lambda>c. 128 \<le> c) s \<Longrightarrow> sanitize s = []"
  by (induction s) (auto simp: sanitize_def)

text \<open>
  Claim C8. Sanitizing a label (dropping what is not ASCII, then replacing \<open>/\<close> by \<open>_\<close>) is
  idempotent: a sanitized label is left as it is. The placeholder \<open>Untitled\<close> is not part
  of the sanitization: line 93 chooses it for a missing label instead of sanitizing.
\<close>

theorem sanitize_idempotent: "sanitize (sanitize s) = sanitize s"
  by (induction s) (auto simp: sanitize_def)

text \<open>
  Claim C9. \<open>Untitled\<close> stands in for a label that is \<open>None\<close> or empty, and only then: any
  other label is sanitized. A label of non-ASCII characters only is sanitized to the empty
  string, and the file name is then the date prefix (with \<open>--date_in_name\<close>) followed by the
  extension of the source path.
\<close>

theorem untitled_only_for_empty_label:
  "clean_label None = py_str ''Untitled'' \<and> clean_label (Some []) = py_str ''Untitled'' \<and>
   (s \<noteq> [] \<longrightarrow> clean_label (Some s) = sanitize s) \<and>
   (s \<noteq> [] \<and> list_all (\<lambda>c. 128 \<le> c) s \<and> zcustomlabel r = Some s \<longrightarrow>
      label r = [] \<and> label r \<noteq> py_str ''Untitled'' \<and>
      file_name e a r =
        (if date_in_name a then strftime e (row_date e r) (date_in_name_format a) else [])
          @ snd (path_splitext (path_old a r)))"
  by (auto simp: clean_label_def label_def file_name_def sanitize_non_ascii py_str_def)

theorem untitled_only_for_empty_label_witness:
  "[233, 8364] \<noteq> ([] :: ustr) \<and> list_all (\<lambda>c. 128 \<le> c) [233, 8364 :: nat] \<and>
   zcustomlabel (ex_row (Some [233, 8364]) (Some (py_str ''a.m4a''))) = Some [233, 8364] \<and>
   label (ex_row (Some [233, 8364]) (Some (py_str ''a.m4a''))) = [] \<and>
   file_name plain_env ex_args (ex_row (Some [233, 8364]) (Some (py_str ''a.m4a'')))
     = py_str ''.m4a'' \<and>
   file_name plain_env (ex_args\<lparr>date_in_name := True, date_in_name_format := py_str ''memo_''\<rparr>)
       (ex_row (Some [233, 8364]) (Some (py_str ''a.m4a'')))
     = py_str ''memo_.m4a''"
  using
    untitled_only_for_empty_label
      [of "[233, 8364]" "ex_row (Some [233, 8364]) (Some (py_str ''a.m4a''))" plain_env ex_args]
    untitled_only_for_empty_label
      [of "[233, 8364]" "ex_row (Some [233, 8364]) (Some (py_str ''a.m4a''))" plain_env
          "ex_args\<lparr>date_in_name := True, date_in_name_format := py_str ''memo_''\<rparr>"]
  by (simp add: ex_defs row_defs)

subsection \<open>The decision\<close>

text \<open>
  Claim C3. Without \<open>--all\<close>, a key other than 10 skips the record: the key is consumed,
  key 27 prints the row with status \<open>Skipped\<close>, any other key prints nothing, and nothing
  else changes: the file system (so no copy is made and no file appears) and both counters
  stay as they were.
\<close>

theorem other_key_skips:
  assumes "\<not> all_flag a" and "stdin s = k # ks" and "k \<noteq> 10"
  shows "process_row e a s r =
           Inr (s\<lparr>stdin := ks,
                  printed := (if k = 27 then printed s @ [py_str ''Skipped''] else printed s)\<rparr>)"
  using assms by (simp add: process_row_def read_key_def)

theorem other_key_skips_witness:
  "\<not> all_flag (ex_args\<lparr>all_flag := False\<rparr>) \<and>
   stdin (ex_state\<lparr>stdin := [113, 10]\<rparr>) = 113 # [10] \<and> (113::nat) \<noteq> 10 \<and>
   process_row plain_env (ex_args\<lparr>all_flag := False\<rparr>) (ex_state\<lparr>stdin := [113, 10]\<rparr>)
       (ex_row None (Some (py_str ''a.m4a''))) = Inr (ex_state\<lparr>stdin := [10]\<rparr>)"
  using other_key_skips
    [of "ex_args\<lparr>all_flag := False\<rparr>" "ex_state\<lparr>stdin := [113, 10]\<rparr>" 113 "[10]" plain_env
        "ex_row None (Some (py_str ''a.m4a''))"]
  by (simp add: ex_args_def ex_state_def)

subsection \<open>The counters\<close>

lemma log_failure_counts:
  "log_failure e a r s w reason = Inr s' \<Longrightarrow>
     success_count s' = success_count s \<and> failed_count s' = failed_count s + 1 \<and>
     stdin s' = stdin s"
  by (auto simp: log_failure_def record_failure_def split: sum.splits)

lemma export_row_counts:
  "export_row e a r s = Inr s' \<Longrightarrow>
     (success_count s' = success_count s + 1 \<and> failed_count s' = failed_count s) \<or>
     (success_count s' = success_count s \<and> failed_count s' = failed_count s + 1)"
  by (auto simp: export_row_def record_success_def split: if_splits sum.splits
      dest: log_failure_counts)

lemma process_row_counts:
  assumes A: "process_row e a s r = Inr s'"
  shows "(success_count s' = success_count s \<and> failed_count s' = failed_count s) \<or>
     (success_count s' = success_count s + 1 \<and> failed_count s' = failed_count s) \<or>
     (success_count s' = success_count s \<and> failed_count s' = failed_count s + 1)"
proof (cases "read_key a s")
  case (Inl m)
  with A show ?thesis by (simp add: process_row_def)
next
  case (Inr ks)
  obtain k s0 where ks: "ks = (k, s0)" by (cases ks)
  have same: "success_count s0 = success_count s \<and> failed_count s0 = failed_count s"
    using Inr ks by (auto simp: read_key_def split: if_splits list.splits)
  show ?thesis
  proof (cases "k = 10")
    case True
    with Inr ks A have "export_row e a r s0 = Inr s'" by (simp add: process_row_def)
    from export_row_counts [OF this] same show ?thesis by auto
  next
    case False
    with Inr ks A same show ?thesis by (auto simp: process_row_def split: if_splits)
  qed
qed

lemma process_rows_counts:
  "process_rows e a s rs = Inr s' \<Longrightarrow>
     success_count s \<le> success_count s' \<and> failed_count s \<le> failed_count s' \<and>
     success_count s' + failed_count s' \<le> success_count s + failed_count s + length rs"
proof (induction rs arbitrary: s)
  case Nil
  then show ?case by simp
next
  case (Cons r rs)
  from Cons.prems obtain s1
    where 0: "loop_step e a s r = Inr s1" and 2: "process_rows e a s1 rs = Inr s'"
    by (auto split: sum.splits)
  from loop_step_returns [OF 0] have 1: "process_row e a s r = Inr s1" by simp
  from process_row_counts [OF 1] Cons.IH [OF 2] show ?case by auto
qed

lemma main_finished:
  "main e a readable db w keys = Finished t \<Longrightarrow>
     \<exists>rows w1 w2. db = Some rows \<and> rows \<noteq> [] \<and> init_log e a w1 = Inr w2 \<and>
       process_rows e a
         \<lparr>disk = w2, stdin = keys, failed_count = 0, success_count = 0, printed = []\<rparr> rows
       = Inr t"
  by (auto simp: main_def split: if_splits option.splits sum.splits)

text \<open>
  Claim C10. A record that is processed leaves both counters as they were or adds exactly
  one to exactly one of them. Over the loop neither counter decreases and together they
  grow by at most the number of records; a run that finishes ends with
  \<open>success_count + failed_count\<close> at most the number of rows read.
\<close>

theorem counters_monotone:
  "(process_row e a s r = Inr s1 \<longrightarrow>
      (success_count s1 = success_count s \<and> failed_count s1 = failed_count s) \<or>
      (success_count s1 = success_count s + 1 \<and> failed_count s1 = failed_count s) \<or>
      (success_count s1 = success_count s \<and> failed_count s1 = failed_count s + 1)) \<and>
   (process_rows e a s rs = Inr s2 \<longrightarrow>
      success_count s \<le> success_count s2 \<and> failed_count s \<le> failed_count s2 \<and>
      success_count s2 + failed_count s2 \<le> success_count s + failed_count s + length rs) \<and>
   (main e a readable (Some rs) w keys = Finished t \<longrightarrow>
      success_count t + failed_count t \<le> length rs)"
proof (intro conjI impI)
  assume "main e a readable (Some rs) w keys = Finished t"
  from main_finished [OF this] obtain w2 where
    "process_rows e a
       \<lparr>disk = w2, stdin = keys, failed_count = 0, success_count = 0, printed = []\<rparr> rs
     = Inr t"
    by auto
  from process_rows_counts [OF this]
  show "success_count t + failed_count t \<le> length rs" by simp
qed (use process_row_counts process_rows_counts in blast)+

lemma ex_step:
  "process_row plain_env ex_args ex_state (ex_row None None)
     = Inr (projr (process_row plain_env ex_args ex_state (ex_row None None))) \<and>
   success_count (projr (process_row plain_env ex_args ex_state (ex_row None None))) = 0 \<and>
   failed_count (projr (process_row plain_env ex_args ex_state (ex_row None None))) = 1"
  by (simp add: ex_defs row_defs step_defs)

lemma ex_loop:
  "process_rows plain_env ex_args ex_state ex_rows
     = Inr (projr (process_rows plain_env ex_args ex_state ex_rows)) \<and>
   success_count (projr (process_rows plain_env ex_args ex_state ex_rows)) = 1 \<and>
   failed_count (projr (process_rows plain_env ex_args ex_state ex_rows)) = 1"
  by (simp add: ex_defs row_defs step_defs dt_offset_def floor_offset)

lemma ex_main:
  "main plain_env ex_args True (Some ex_rows) ex_disk []
     = Finished (final (main plain_env ex_args True (Some ex_rows) ex_disk [])) \<and>
   success_count (final (main plain_env ex_args True (Some ex_rows) ex_disk [])) = 1 \<and>
   failed_count (final (main plain_env ex_args True (Some ex_rows) ex_disk [])) = 1"
  by (simp add: main_def init_log_def log_header_def ex_defs row_defs step_defs dt_offset_def
      floor_offset)

theorem counters_monotone_witness:
  "process_row plain_env ex_args ex_state (ex_row None None)
     = Inr (projr (process_row plain_env ex_args ex_state (ex_row None None))) \<and>
   failed_count (projr (process_row plain_env ex_args ex_state (ex_row None None)))
     = failed_count ex_state + 1 \<and>
   process_rows plain_env ex_args ex_state ex_rows
     = Inr (projr (process_rows plain_env ex_args ex_state ex_rows)) \<and>
   success_count (projr (process_rows plain_env ex_args ex_state ex_rows))
     + failed_count (projr (process_rows plain_env ex_args ex_state ex_rows)) = length ex_rows \<and>
   main plain_env ex_args True (Some ex_rows) ex_disk []
     = Finished (final (main plain_env ex_args True (Some ex_rows) ex_disk [])) \<and>
   success_count (final (main plain_env ex_args True (Some ex_rows) ex_disk []))
     + failed_count (final (main plain_env ex_args True (Some ex_rows) ex_disk []))
     \<le> length ex_rows"
  using counters_monotone
    [of plain_env ex_args ex_state "ex_row None None"
        "projr (process_row plain_env ex_args ex_state (ex_row None None))"
        ex_rows "projr (process_rows plain_env ex_args ex_state ex_rows)"
        True ex_disk "[]" "final (main plain_env ex_args True (Some ex_rows) ex_disk [])"]
    ex_step ex_loop ex_main
  by (simp add: ex_state_def ex_rows_def)

subsection \<open>A record decided Export\<close>


lemma process_row_enter:
  "\<not> all_flag a \<Longrightarrow> stdin s = 10 # ks \<Longrightarrow>
     process_row e a s r = export_row e a r (s\<lparr>stdin := ks\<rparr>)"
  by (simp add: process_row_def read_key_def)



lemma append_file_frame:
  "files (append_file w p d) q =
     (if q = p
      then Some \<lparr>content = (case files w p of None \<Rightarrow> [] | Some f \<Rightarrow> content f) @ d,
                 mtime = clock w\<rparr>
      else files w q)"
  by (simp add: append_file_def)


lemma open_append_ok: "open_append e w p d = Inr w' \<Longrightarrow> w' = append_file w p d"
  by (auto simp: open_append_def split: option.splits)








subsection \<open>The modification time of an exported file\<close>


lemma copyfile_stamps_clock:
  "copyfile e w src dst = Inr w' \<Longrightarrow> \<exists>f. files w' dst = Some f \<and> mtime f = clock w"
  by (auto simp: copyfile_def split: option.splits)





subsection \<open>The failure log\<close>

lemma export_row_failure:
  assumes "export_row e a r s = Inr s'" and "failed_count s' \<noteq> failed_count s"
  shows "\<exists>reason w0. try_export e a r (disk s) = Inl (reason, w0) \<and>
           s' = record_failure s
                  (append_file w0 (log_path a) (fail_line (date_str e r) (label r) reason))"
proof (cases "try_export e a r (disk s)")
  case (Inr w2)
  with assms(1) have "s' = record_success s w2" by (simp add: export_row_try)
  with assms(2) show ?thesis by (simp add: record_success_def)
next
  case (Inl x)
  obtain reason w0 where x: "x = (reason, w0)" by (cases x)
  from assms(1) Inl x have lf: "log_failure e a r s w0 reason = Inr s'"
    by (simp add: export_row_try)
  then obtain w' where
    "open_append e w0 (log_path a) (fail_line (date_str e r) (label r) reason) = Inr w'"
    "s' = record_failure s w'"
    by (auto simp: log_failure_def split: sum.splits)
  with open_append_ok [OF this(1)] Inl x show ?thesis by simp
qed

lemma process_row_failure:
  assumes A: "process_row e a s r = Inr s'" and B: "failed_count s' \<noteq> failed_count s"
  shows "\<exists>s0 reason w0. read_key a s = Inr (10, s0) \<and>
           try_export e a r (disk s) = Inl (reason, w0) \<and>
           s' = record_failure s0
                  (append_file w0 (log_path a) (fail_line (date_str e r) (label r) reason))"
proof (cases "read_key a s")
  case (Inl m)
  with A show ?thesis by (simp add: process_row_def)
next
  case (Inr ks)
  obtain k s0 where ks: "ks = (k, s0)" by (cases ks)
  from Inr ks have rk: "read_key a s = Inr (k, s0)" by simp
  note same = read_key_counts [OF rk] read_key_disk [OF rk]
  show ?thesis
  proof (cases "k = 10")
    case True
    with rk A have E: "export_row e a r s0 = Inr s'" by (simp add: process_row_def)
    from B same have "failed_count s' \<noteq> failed_count s0" by simp
    from export_row_failure [OF E this] rk True same show ?thesis by auto
  next
    case False
    with rk A B same show ?thesis by (auto simp: process_row_def split: if_splits)
  qed
qed

lemma count_fail_line:
  "count_list (fail_line d l x) 10 = Suc (count_list d 10 + count_list l 10 + count_list x 10)"
  by (simp add: fail_line_def py_str_def)

text \<open>
  Claim C6, as amended. The log file is \<open>failed_exports.txt\<close> in the export directory. Before
  the loop (a run that finishes has been through it) it is opened with mode \<open>w\<close>, so whatever
  it held is gone, and gets the header with the start time and a line of fifty \<open>=\<close>. Every
  failure that is counted comes from a record decided Export whose \<open>try\<close> block raised: with
  \<open>reason\<close> the \<open>str\<close> of that exception and \<open>w0\<close> the file system the \<open>try\<close> block left, the
  state after the record is the one where the text
  \<open>FAILED: <date_str> | Memo: <label> | Reason: <reason>\<close> and a newline have been appended
  to what the log held on \<open>w0\<close>, and no other file of \<open>w0\<close> has changed. That text holds one
  newline more than its three parts together: it is one line when date, label and reason
  hold none, and more than one otherwise. The counterexample is a label with a newline,
  which line 93 keeps: the failure of that one record takes two lines of the log.
\<close>

theorem failure_log_lines:
  "(init_log e a w = Inr w' \<longrightarrow>
      files w' (log_path a) =
        Some \<lparr>content = py_str ''Voice Memos Export Log - ''
                  @ str_datetime e (fromtimestamp e (clock w)) @ [10] @ replicate 50 61 @ [10],
              mtime = clock w\<rparr> \<and>
      (\<forall>p. p \<noteq> log_path a \<longrightarrow> files w' p = files w p)) \<and>
   (process_row e a s r = Inr s' \<and> failed_count s' \<noteq> failed_count s \<longrightarrow>
      (\<exists>s0 reason w0.
         read_key a s = Inr (10, s0) \<and> try_export e a r (disk s) = Inl (reason, w0) \<and>
         s' = record_failure s0
                (append_file w0 (log_path a)
                   (py_str ''FAILED: '' @ date_str e r @ py_str '' | Memo: '' @ label r
                      @ py_str '' | Reason: '' @ reason @ [10])))) \<and>
   files (append_file w0 p d) q =
     (if q = p
      then Some \<lparr>content = (case files w0 p of None \<Rightarrow> [] | Some f \<Rightarrow> content f) @ d,
                 mtime = clock w0\<rparr>
      else files w0 q) \<and>
   count_list (py_str ''FAILED: '' @ ds @ py_str '' | Memo: '' @ l @ py_str '' | Reason: ''
        @ x @ [10]) 10
     = Suc (count_list ds 10 + count_list l 10 + count_list x 10) \<and>
   (main e a readable db w keys = Finished t \<longrightarrow>
      (\<exists>rows w1 w2. db = Some rows \<and> init_log e a w1 = Inr w2 \<and>
         process_rows e a
           \<lparr>disk = w2, stdin = keys, failed_count = 0, success_count = 0, printed = []\<rparr> rows
         = Inr t)) \<and>
   log_path a = path_join (export_path a) (py_str ''failed_exports.txt'')"
proof (intro conjI impI)
  assume "main e a readable db w keys = Finished t"
  from main_finished [OF this]
  show "\<exists>rows w1 w2. db = Some rows \<and> init_log e a w1 = Inr w2 \<and>
         process_rows e a
           \<lparr>disk = w2, stdin = keys, failed_count = 0, success_count = 0, printed = []\<rparr> rows
         = Inr t"
    by blast
next
  assume "init_log e a w = Inr w'"
  then have w':
    "w' = w\<lparr>files := (files w)(log_path a \<mapsto> \<lparr>content = log_header e w, mtime = clock w\<rparr>)\<rparr>"
    by (auto simp: init_log_def open_write_def split: option.splits)
  then show "files w' (log_path a) =
        Some \<lparr>content = py_str ''Voice Memos Export Log - ''
                  @ str_datetime e (fromtimestamp e (clock w)) @ [10] @ replicate 50 61 @ [10],
              mtime = clock w\<rparr>"
    by (simp add: log_header_def)
  from w' show "\<forall>p. p \<noteq> log_path a \<longrightarrow> files w' p = files w p" by simp
next
  assume A: "process_row e a s r = Inr s' \<and> failed_count s' \<noteq> failed_count s"
  from process_row_failure [of e a s r s'] A
  show "\<exists>s0 reason w0.
         read_key a s = Inr (10, s0) \<and> try_export e a r (disk s) = Inl (reason, w0) \<and>
         s' = record_failure s0
                (append_file w0 (log_path a)
                   (py_str ''FAILED: '' @ date_str e r @ py_str '' | Memo: '' @ label r
                      @ py_str '' | Reason: '' @ reason @ [10]))"
    by (simp add: fail_line_def)
next
  show "count_list (py_str ''FAILED: '' @ ds @ py_str '' | Memo: '' @ l @ py_str '' | Reason: ''
        @ x @ [10]) 10
     = Suc (count_list ds 10 + count_list l 10 + count_list x 10)"
    using count_fail_line [of ds l x] by (simp add: fail_line_def)
qed (simp_all add: log_path_def append_file_frame)

theorem failure_log_lines_witness:
  "init_log plain_env ex_args ex_disk = Inr (projr (init_log plain_env ex_args ex_disk)) \<and>
   files (projr (init_log plain_env ex_args ex_disk)) (py_str ''/out/failed_exports.txt'')
     = Some \<lparr>content = py_str ''Voice Memos Export Log - '' @ [10] @ replicate 50 61 @ [10],
             mtime = 1000000000\<rparr> \<and>
   process_row plain_env ex_args ex_state ex_row_gone
     = Inr (projr (process_row plain_env ex_args ex_state ex_row_gone)) \<and>
   failed_count (projr (process_row plain_env ex_args ex_state ex_row_gone))
     \<noteq> failed_count ex_state \<and>
   read_key ex_args ex_state = Inr (10, ex_state) \<and>
   try_export plain_env ex_args ex_row_gone (disk ex_state) = Inl (missing_source, ex_disk) \<and>
   files (disk (projr (process_row plain_env ex_args ex_state ex_row_gone)))
       (py_str ''/out/failed_exports.txt'')
     = Some \<lparr>content = [61, 10] @ py_str (''FAILED: %d.%m.%Y %H:%M:%S | Memo: B | Reason: '' @
                 ''Audio file not found on disk (likely in iCloud)'') @ [10],
             mtime = 1000000000\<rparr> \<and>
   files (disk (projr (process_row plain_env ex_args ex_state ex_row_gone)))
       (py_str ''/db/a.m4a'') = files ex_disk (py_str ''/db/a.m4a'') \<and>
   main plain_env ex_args True (Some ex_rows) ex_disk []
     = Finished (final (main plain_env ex_args True (Some ex_rows) ex_disk [])) \<and>
   log_path ex_args = py_str ''/out/failed_exports.txt''"
  using failure_log_lines
    [of plain_env ex_args ex_disk "projr (init_log plain_env ex_args ex_disk)" ex_state
        ex_row_gone "projr (process_row plain_env ex_args ex_state ex_row_gone)"
        ex_disk "log_path ex_args" "[]" "py_str ''/db/a.m4a''" "[]" "[]" "[]"
        True "Some ex_rows" "[]" "final (main plain_env ex_args True (Some ex_rows) ex_disk [])"]
    ex_main
  by (simp add: init_log_def log_header_def try_export_def ex_defs row_defs step_defs)

theorem newline_in_label_counterexample:
  "label ex_row_newline = [97, 10, 98] \<and>
   failed_count (projr (process_row plain_env ex_args ex_state ex_row_newline))
     = failed_count ex_state + 1 \<and>
   content (the (files (disk (projr (process_row plain_env ex_args ex_state ex_row_newline)))
       (log_path ex_args)))
     = content (the (files (disk ex_state) (log_path ex_args)))
         @ py_str ''FAILED: %d.%m.%Y %H:%M:%S | Memo: a'' @ [10]
         @ py_str ''b | Reason: Audio file not found on disk (likely in iCloud)'' @ [10] \<and>
   count_list
     (py_str ''FAILED: %d.%m.%Y %H:%M:%S | Memo: a'' @ [10]
        @ py_str ''b | Reason: Audio file not found on disk (likely in iCloud)'' @ [10]) 10 = 2"
  by (simp add: ex_defs row_defs step_defs)

subsection \<open>The resolved paths\<close>

lemma splitext_no_sep: "47 \<notin> set (snd (path_splitext p))"
  by (auto simp: path_splitext_def Let_def dest!: set_takeWhileD)

lemma clean_label_no_sep: "47 \<notin> set (clean_label l)"
  by (auto simp: clean_label_def py_str_def sanitize_no_sep split: option.splits)

lemma inside_join:
  assumes "47 \<notin> set n" and "n \<noteq> []" and "n \<noteq> [46]" and "n \<noteq> [46, 46]"
  shows "inside d (path_join d n)"
proof -
  from assms have h: "hd n \<noteq> 47" by (cases n) auto
  with assms show ?thesis
    by (auto simp: inside_def path_join_def Let_def)
qed

text \<open>
  Claim C7, as amended. For a recording with a non-empty stored path, the source path is
  the stored path when that starts with \<open>/\<close>, and else the directory of the database joined
  with it; the destination is the export directory joined with the file name (date prefix,
  cleaned label, extension). The label and the extension never hold a \<open>/\<close>, so the file
  name holds one exactly when \<open>--date_in_name\<close> is set and the formatted date does. A
  destination whose file name holds no \<open>/\<close> and is not empty, \<open>.\<close> or \<open>..\<close> is inside the
  export directory. The counterexample has the two ways out: a date format with a \<open>/\<close>
  (here \<open>/tmp/\<close>, which \<open>os.path.join\<close> takes as a new root), and the label \<open>..\<close> on a
  source with no extension.
\<close>

theorem resolved_paths:
  assumes "path_old_raw r \<noteq> []"
  shows "path_new e a r = path_join (export_path a) (file_name e a r) \<and>
     (hd (path_old_raw r) \<noteq> 47 \<longrightarrow>
        path_old a r = path_join (path_dirname (db_path a)) (path_old_raw r)) \<and>
     (hd (path_old_raw r) = 47 \<longrightarrow> path_old a r = path_old_raw r) \<and>
     (47 \<in> set (file_name e a r) \<longleftrightarrow>
        date_in_name a \<and> 47 \<in> set (strftime e (row_date e r) (date_in_name_format a))) \<and>
     (47 \<notin> set (file_name e a r) \<and> file_name e a r \<noteq> [] \<and> file_name e a r \<noteq> [46] \<and>
      file_name e a r \<noteq> [46, 46] \<longrightarrow>
        inside (export_path a) (path_new e a r))"
proof -
  have pn: "path_new e a r = path_join (export_path a) (file_name e a r)"
    using assms by (simp add: path_new_def)
  have fn: "47 \<in> set (file_name e a r) \<longleftrightarrow>
        date_in_name a \<and> 47 \<in> set (strftime e (row_date e r) (date_in_name_format a))"
    using splitext_no_sep [of "path_old a r"] clean_label_no_sep [of "zcustomlabel r"]
    by (auto simp: file_name_def label_def Let_def)
  show ?thesis
    using assms pn fn inside_join [of "file_name e a r" "export_path a"]
    by (auto simp: path_old_def Let_def)
qed

theorem resolved_paths_witness:
  "path_old_raw ex_row_a \<noteq> [] \<and> hd (path_old_raw ex_row_a) \<noteq> 47 \<and>
   path_old ex_args ex_row_a = py_str ''/db/a.m4a'' \<and>
   hd (path_old_raw (ex_row None (Some (py_str ''/abs/x.wav'')))) = 47 \<and>
   path_old ex_args (ex_row None (Some (py_str ''/abs/x.wav''))) = py_str ''/abs/x.wav'' \<and>
   file_name plain_env ex_args ex_row_a = py_str ''A.m4a'' \<and>
   path_new plain_env ex_args ex_row_a = py_str ''/out/A.m4a'' \<and>
   inside (export_path ex_args) (path_new plain_env ex_args ex_row_a)"
  using resolved_paths [of ex_row_a plain_env ex_args]
        resolved_paths [of "ex_row None (Some (py_str ''/abs/x.wav''))" plain_env ex_args]
  by (simp add: ex_defs row_defs)

theorem destination_outside_root_counterexample:
  "path_old_raw ex_row_a \<noteq> [] \<and>
   path_new plain_env ex_args_dated ex_row_a = py_str ''/tmp/A.m4a'' \<and>
   \<not> inside (export_path ex_args_dated) (path_new plain_env ex_args_dated ex_row_a) \<and>
   path_old_raw ex_row_dots \<noteq> [] \<and>
   path_new plain_env ex_args ex_row_dots = py_str ''/out/..'' \<and>
   \<not> inside (export_path ex_args) (path_new plain_env ex_args ex_row_dots)"
  by (simp add: ex_defs row_defs inside_def)

subsection \<open>Batch mode\<close>








end
